theory Spec2Isabelle
  imports Main "HOL-Library.Sublist" "HOL-Library.Multiset"
begin

text \<open>
  The back end of the OCR application (\<open>backend/index.js\<close>): the upload route with
  its multer configuration and the error-handling middleware, and the three routes over the
  \<open>Record\<close> collection. The state is the collection and the set of files on disk; a
  route takes the state and returns the response, and the new state where it changes it.
  What a request reads from outside the program (the clock, the random number, the outcome
  of the preprocessing and of the recognition, the new ObjectId) is an argument of the
  route. The libraries are modelled by what they do for these calls: multer runs the file
  filter, then stores the file under the size limit and removes it when the limit is
  passed; mongoose casts an id parameter, validates a document against the schema and
  inserts it under the unique \<open>_id\<close> index. The store is taken to be reachable: a
  lost connection is not part of the model.
\<close>

section \<open>Strings of the JavaScript runtime\<close>

text \<open>
  Strings are byte strings, and the model is of ASCII text: \<open>toLowerCase\<close> folds
  the letters A to Z and \<open>trim\<close> strips the six ASCII white-space characters, where
  the runtime also folds letters and strips spaces beyond ASCII.
  \<open>toLowerCase\<close> is \<open>String.prototype.toLowerCase\<close>, \<open>trim\<close> is
  \<open>String.prototype.trim\<close>, \<open>dec\<close> is the decimal rendering of a non-negative
  number when JavaScript concatenates it with a string.
\<close>

definition to_lower_char :: "char \<Rightarrow> char" where
  "to_lower_char c =
     (case map_of (zip ''ABCDEFGHIJKLMNOPQRSTUVWXYZ'' ''abcdefghijklmnopqrstuvwxyz'') c of
        Some l \<Rightarrow> l
      | None \<Rightarrow> c)"

definition toLowerCase :: "string \<Rightarrow> string" where
  "toLowerCase s = map to_lower_char s"

definition is_space :: "char \<Rightarrow> bool" where
  "is_space c =
     (c = CHR 0x09 \<or> c = CHR 0x0A \<or> c = CHR 0x0B \<or> c = CHR 0x0C \<or> c = CHR 0x0D \<or> c = CHR '' '')"

definition trim :: "string \<Rightarrow> string" where
  "trim s = rev (dropWhile is_space (rev (dropWhile is_space s)))"

definition digit_char :: "nat \<Rightarrow> char" where
  "digit_char d = ''0123456789'' ! d"

fun dec :: "nat \<Rightarrow> string" where
  "dec n = (if n < 10 then [digit_char n] else dec (n div 10) @ [digit_char (n mod 10)])"

declare dec.simps [simp del]

section \<open>\<open>path.extname\<close> (Node, POSIX flavour)\<close>

text \<open>
  The scan of Node's \<open>path.extname\<close>: from the last character backwards, up to the
  separator that starts the last path component. \<open>startDot\<close> and \<open>endp\<close> are
  \<open>None\<close> where Node holds \<open>-1\<close>.
\<close>

record ext_scan =
  startDot :: "nat option"
  startPart :: nat
  endp :: "nat option"
  matchedSlash :: bool
  preDotState :: int

fun extname_scan :: "string \<Rightarrow> nat \<Rightarrow> ext_scan \<Rightarrow> ext_scan" where
  "extname_scan p 0 s = s"
| "extname_scan p (Suc i) s =
     (if p ! i = CHR ''/'' then
        (if \<not> matchedSlash s then s\<lparr>startPart := i + 1\<rparr> else extname_scan p i s)
      else
        (let s1 = (if endp s = None then s\<lparr>endp := Some (i + 1), matchedSlash := False\<rparr> else s);
             s2 = (if p ! i = CHR ''.'' then
                     (if startDot s1 = None then s1\<lparr>startDot := Some i\<rparr>
                      else if preDotState s1 \<noteq> 1 then s1\<lparr>preDotState := 1\<rparr>
                      else s1)
                   else if startDot s1 \<noteq> None then s1\<lparr>preDotState := - 1\<rparr>
                   else s1)
         in extname_scan p i s2))"

definition extname :: "string \<Rightarrow> string" where
  "extname p =
     (let s = extname_scan p (length p)
                \<lparr>startDot = None, startPart = 0, endp = None, matchedSlash = True, preDotState = 0\<rparr>
      in case (startDot s, endp s) of
           (Some sd, Some e) \<Rightarrow>
             (if preDotState s = 0 \<or> (preDotState s = 1 \<and> sd + 1 = e \<and> sd = startPart s + 1)
              then [] else take (e - sd) (drop sd p))
         | _ \<Rightarrow> [])"

section \<open>Data model\<close>

text \<open>
  A document of the \<open>Record\<close> collection (\<open>recordSchema\<close>); \<open>rec_id\<close> is its
  \<open>_id\<close>, the 24 lower-case hexadecimal digits of the ObjectId, \<open>createdAt\<close> is in
  milliseconds.
\<close>

record ocr_record =
  rec_id :: string
  imageUrl :: string
  extractedText :: string
  language :: string
  createdAt :: int

text \<open>
  The state shared by the requests: the collection, in insertion order, and the files that
  exist on disk, by absolute path.
\<close>

record server =
  docs :: "ocr_record list"
  files :: "string set"

text \<open>
  The process: its working directory, which relative paths are resolved against, and
  \<open>__dirname\<close>, the directory of the script; both absolute, without a trailing separator.
\<close>

record process =
  cwd :: string
  dirname :: string

definition resolve :: "process \<Rightarrow> string \<Rightarrow> string" where
  "resolve pr p = (case p of [] \<Rightarrow> cwd pr | c # _ \<Rightarrow> if c = CHR ''/'' then p else cwd pr @ ''/'' @ p)"

definition existsSync :: "process \<Rightarrow> string set \<Rightarrow> string \<Rightarrow> bool" where
  "existsSync pr fs p = (resolve pr p \<in> fs)"

definition unlinkSync :: "process \<Rightarrow> string set \<Rightarrow> string \<Rightarrow> string set" where
  "unlinkSync pr fs p = fs - {resolve pr p}"

definition writeFile :: "process \<Rightarrow> string set \<Rightarrow> string \<Rightarrow> string set" where
  "writeFile pr fs p = insert (resolve pr p) fs"

text \<open>The JSON bodies the routes send, and a response: status code and body.\<close>

datatype payload =
    Upload_created ocr_record
  | Record_list "ocr_record list" nat
  | Record_found ocr_record
  | Record_deleted
  | Failure string "string option"

record response =
  status :: nat
  payload :: payload

section \<open>The collection\<close>

text \<open>
  Casting a route parameter to an ObjectId: a string of 24 hexadecimal digits, which names
  the id written in lower case. Any other string is a \<open>CastError\<close>, a string of 12
  characters included.
\<close>

definition is_hex :: "char \<Rightarrow> bool" where
  "is_hex c = (c \<in> set ''0123456789abcdefABCDEF'')"

definition castObjectId :: "string \<Rightarrow> string option" where
  "castObjectId v =
     (if length v = 24 \<and> list_all is_hex v then Some (toLowerCase v) else None)"

definition cast_error :: "string \<Rightarrow> string" where
  "cast_error v =
     ''Cast to ObjectId failed for value '' @ [CHR 0x22] @ v @ [CHR 0x22] @
     '' (type string) at path '' @ [CHR 0x22] @ ''_id'' @ [CHR 0x22] @
     '' for model '' @ [CHR 0x22] @ ''Record'' @ [CHR 0x22]"

definition findById :: "ocr_record list \<Rightarrow> string \<Rightarrow> string + ocr_record option" where
  "findById ds v =
     (case castObjectId v of
        None \<Rightarrow> Inl (cast_error v)
      | Some i \<Rightarrow> Inr (find (\<lambda>d. rec_id d = i) ds))"

fun delete_first :: "('a \<Rightarrow> bool) \<Rightarrow> 'a list \<Rightarrow> 'a list" where
  "delete_first P [] = []"
| "delete_first P (d # ds) = (if P d then ds else d # delete_first P ds)"

definition findByIdAndDelete :: "ocr_record list \<Rightarrow> string \<Rightarrow> string + ocr_record list" where
  "findByIdAndDelete ds v =
     (case castObjectId v of
        None \<Rightarrow> Inl (cast_error v)
      | Some i \<Rightarrow> Inr (delete_first (\<lambda>d. rec_id d = i) ds))"

text \<open>
  \<open>save\<close>: the schema's validators run first; \<open>required\<close> on a String path refuses
  the empty string. Then the insert, which the unique index on \<open>_id\<close> refuses for an id
  already there.
\<close>

definition required_error :: "string \<Rightarrow> string" where
  "required_error path = path @ '': Path `'' @ path @ ''` is required.''"

definition validate :: "ocr_record \<Rightarrow> string option" where
  "validate d =
     (if imageUrl d = [] \<and> extractedText d = []
      then Some (''Record validation failed: '' @ required_error ''imageUrl'' @ '', '' @
                 required_error ''extractedText'')
      else if imageUrl d = [] then Some (''Record validation failed: '' @ required_error ''imageUrl'')
      else if extractedText d = []
      then Some (''Record validation failed: '' @ required_error ''extractedText'')
      else None)"

definition save :: "ocr_record list \<Rightarrow> ocr_record \<Rightarrow> string + ocr_record list" where
  "save ds d =
     (case validate d of
        Some msg \<Rightarrow> Inl msg
      | None \<Rightarrow>
          if rec_id d \<in> set (map rec_id ds)
          then Inl (''E11000 duplicate key error collection: ocr_system.records index: _id_'')
          else Inr (ds @ [d]))"

section \<open>Regular expressions of the store's query language\<close>

text \<open>
  \<open>$regex\<close> with option \<open>i\<close> hands the search string to the store's regular
  expression engine as a pattern. The fragment modelled here: a pattern of ordinary
  characters, each matching itself up to case, and of dots, each matching any character
  but a line feed; the match may start anywhere in the text. What the engine answers on any
  other pattern (a matcher, or an error for a pattern it cannot compile) is the parameter
  \<open>beyond\<close>.
\<close>

datatype rx_atom = Lit char | AnyChar

definition rx_special :: "char list" where
  "rx_special = CHR 0x5C # ''^$.[]|()?*+{}''"

fun parse_pattern :: "string \<Rightarrow> rx_atom list option" where
  "parse_pattern [] = Some []"
| "parse_pattern (c # cs) =
     (if c = CHR ''.'' then map_option ((#) AnyChar) (parse_pattern cs)
      else if c \<in> set rx_special then None
      else map_option ((#) (Lit c)) (parse_pattern cs))"

fun atom_matches :: "rx_atom \<Rightarrow> char \<Rightarrow> bool" where
  "atom_matches (Lit c) d = (to_lower_char c = to_lower_char d)"
| "atom_matches AnyChar d = (d \<noteq> CHR 0x0A)"

fun match_here :: "rx_atom list \<Rightarrow> string \<Rightarrow> bool" where
  "match_here [] t = True"
| "match_here (a # as) [] = False"
| "match_here (a # as) (d # ds) = (atom_matches a d \<and> match_here as ds)"

fun match_anywhere :: "rx_atom list \<Rightarrow> string \<Rightarrow> bool" where
  "match_anywhere as [] = match_here as []"
| "match_anywhere as (d # ds) = (match_here as (d # ds) \<or> match_anywhere as ds)"

type_synonym engine = "string \<Rightarrow> string + (string \<Rightarrow> bool)"

definition regex_i :: "engine \<Rightarrow> string \<Rightarrow> string + (string \<Rightarrow> bool)" where
  "regex_i beyond pat =
     (case parse_pattern pat of
        Some as \<Rightarrow> Inr (match_anywhere as)
      | None \<Rightarrow> beyond pat)"

datatype query = All_docs | ExtractedText_regex_i string

definition find_docs :: "engine \<Rightarrow> ocr_record list \<Rightarrow> query \<Rightarrow> string + ocr_record list" where
  "find_docs beyond ds q =
     (case q of
        All_docs \<Rightarrow> Inr ds
      | ExtractedText_regex_i pat \<Rightarrow>
          (case regex_i beyond pat of
             Inl msg \<Rightarrow> Inl msg
           | Inr m \<Rightarrow> Inr (filter (\<lambda>d. m (extractedText d)) ds)))"

text \<open>\<open>.sort({ createdAt: -1 })\<close>: descending by \<open>createdAt\<close>, ties in insertion order.\<close>

definition sort_createdAt_desc :: "ocr_record list \<Rightarrow> ocr_record list" where
  "sort_createdAt_desc ds = sort_key (\<lambda>d. - createdAt d) ds"

section \<open>Routes over the collection\<close>

text \<open>\<open>GET /api/records\<close>; \<open>search\<close> is \<open>req.query.search\<close>, \<open>None\<close> when absent.\<close>

definition get_records :: "engine \<Rightarrow> server \<Rightarrow> string option \<Rightarrow> response" where
  "get_records beyond st search =
     (let query = (case search of
                     None \<Rightarrow> All_docs
                   | Some s \<Rightarrow> if s = [] then All_docs else ExtractedText_regex_i s)
      in case find_docs beyond (docs st) query of
           Inl msg \<Rightarrow> \<lparr>status = 500, payload = Failure ''Failed to fetch records'' (Some msg)\<rparr>
         | Inr found \<Rightarrow>
             (let records = sort_createdAt_desc found
              in \<lparr>status = 200, payload = Record_list records (length records)\<rparr>))"

text \<open>\<open>GET /api/records/:id\<close>\<close>

definition get_record :: "server \<Rightarrow> string \<Rightarrow> response" where
  "get_record st id_param =
     (case findById (docs st) id_param of
        Inl msg \<Rightarrow> \<lparr>status = 500, payload = Failure ''Failed to fetch record'' (Some msg)\<rparr>
      | Inr None \<Rightarrow> \<lparr>status = 404, payload = Failure ''Record not found'' None\<rparr>
      | Inr (Some d) \<Rightarrow> \<lparr>status = 200, payload = Record_found d\<rparr>)"

text \<open>
  \<open>DELETE /api/records/:id\<close>. \<open>path.join(__dirname, record.imageUrl)\<close> is the
  concatenation: \<open>imageUrl\<close> starts with a separator and has no \<open>.\<close> or
  \<open>..\<close> segment.
\<close>

definition delete_record :: "process \<Rightarrow> server \<Rightarrow> string \<Rightarrow> response \<times> server" where
  "delete_record pr st id_param =
     (case findById (docs st) id_param of
        Inl msg \<Rightarrow> (\<lparr>status = 500, payload = Failure ''Failed to delete record'' (Some msg)\<rparr>, st)
      | Inr None \<Rightarrow> (\<lparr>status = 404, payload = Failure ''Record not found'' None\<rparr>, st)
      | Inr (Some d) \<Rightarrow>
          (let imagePath = dirname pr @ imageUrl d;
               fs = (if existsSync pr (files st) imagePath
                     then unlinkSync pr (files st) imagePath else files st)
           in case findByIdAndDelete (docs st) id_param of
                Inl msg \<Rightarrow>
                  (\<lparr>status = 500, payload = Failure ''Failed to delete record'' (Some msg)\<rparr>,
                   st\<lparr>files := fs\<rparr>)
              | Inr ds \<Rightarrow> (\<lparr>status = 200, payload = Record_deleted\<rparr>, \<lparr>docs = ds, files = fs\<rparr>)))"

section \<open>The upload route\<close>

text \<open>
  The file part of the multipart body in field \<open>image\<close>, as multer sees it, and the
  request: that part, if any, and the \<open>language\<close> field of the body.
\<close>

record upload_file =
  originalname :: string
  mimetype :: string
  byte_count :: nat

record upload_request =
  file_part :: "upload_file option"
  body_language :: "string option"

text \<open>
  What one request reads from outside the program: the clock at the three calls of
  \<open>Date.now\<close>, the random number, the outcome of the preprocessing (\<open>Some\<close> the
  message of the error thrown), the outcome of the recognition (\<open>Inl\<close> the message of the
  error thrown, \<open>Inr\<close> the text) and the ObjectId generated for the new document.
\<close>

record upload_env =
  now_filename :: nat
  random_part :: nat
  now_processed :: nat
  sharp_error :: "string option"
  recognize :: "string + string"
  new_id :: string
  now_created :: nat

text \<open>\<open>allowedTypes.test\<close>: some alternative occurs somewhere in the string.\<close>

definition allowedTypes :: "string list" where
  "allowedTypes = [''jpeg'', ''jpg'', ''png'', ''gif'', ''bmp'', ''tiff'', ''webp'']"

fun alternatives_test :: "string list \<Rightarrow> string \<Rightarrow> bool" where
  "alternatives_test ws [] = list_ex (\<lambda>w. prefix w []) ws"
| "alternatives_test ws (c # cs) = (list_ex (\<lambda>w. prefix w (c # cs)) ws \<or> alternatives_test ws cs)"

definition fileFilter :: "upload_file \<Rightarrow> bool" where
  "fileFilter file =
     (let ext_ok = alternatives_test allowedTypes (toLowerCase (extname (originalname file)));
          mimetype_ok = alternatives_test allowedTypes (mimetype file)
      in mimetype_ok \<and> ext_ok)"

definition fileSize :: nat where
  "fileSize = 10 * 1024 * 1024"

definition storage_filename :: "upload_env \<Rightarrow> upload_file \<Rightarrow> string" where
  "storage_filename env file =
     (let uniqueSuffix = dec (now_filename env) @ ''-'' @ dec (random_part env)
      in ''image'' @ ''-'' @ uniqueSuffix @ extname (originalname file))"

text \<open>
  The error-handling middleware. An error is multer's own, with its code and message, or a
  plain \<open>Error\<close> with its message.
\<close>

datatype request_error = MulterError string string | PlainError string

fun error_middleware :: "request_error \<Rightarrow> response" where
  "error_middleware (MulterError code msg) =
     (if code = ''LIMIT_FILE_SIZE''
      then \<lparr>status = 400, payload = Failure ''File too large. Maximum size is 10MB.'' None\<rparr>
      else \<lparr>status = 500, payload = Failure ''Something went wrong!'' (Some msg)\<rparr>)"
| "error_middleware (PlainError msg) =
     \<lparr>status = 500, payload = Failure ''Something went wrong!'' (Some msg)\<rparr>"

text \<open>\<open>req.file\<close>, once multer has stored the upload.\<close>

record stored_file =
  path :: string
  filename :: string

text \<open>The \<open>catch\<close> block of the upload handler.\<close>

definition upload_catch :: "process \<Rightarrow> server \<Rightarrow> stored_file \<Rightarrow> string \<Rightarrow> response \<times> server" where
  "upload_catch pr st file msg =
     (\<lparr>status = 500, payload = Failure ''Failed to process image'' (Some msg)\<rparr>,
      st\<lparr>files := (if existsSync pr (files st) (path file)
                    then unlinkSync pr (files st) (path file) else files st)\<rparr>)"

text \<open>The handler of \<open>POST /api/upload\<close>, run after multer.\<close>

definition upload_handler ::
  "process \<Rightarrow> upload_env \<Rightarrow> server \<Rightarrow> stored_file option \<Rightarrow> string option \<Rightarrow> response \<times> server" where
  "upload_handler pr env st req_file lang =
     (case req_file of
        None \<Rightarrow> (\<lparr>status = 400, payload = Failure ''No image file uploaded'' None\<rparr>, st)
      | Some file \<Rightarrow>
          (let imagePath = path file;
               language = (case lang of None \<Rightarrow> ''eng'' | Some l \<Rightarrow> if l = [] then ''eng'' else l);
               processedPath = ''uploads/processed-'' @ dec (now_processed env) @ ''.png'';
               imageUrl = ''/uploads/'' @ filename file
           in case sharp_error env of
                Some msg \<Rightarrow> upload_catch pr st file msg
              | None \<Rightarrow>
                  (let st1 = st\<lparr>files := writeFile pr (files st) processedPath\<rparr>
                   in case recognize env of
                        Inl msg \<Rightarrow> upload_catch pr st1 file msg
                      | Inr text \<Rightarrow>
                          (let newRecord = \<lparr>rec_id = new_id env, imageUrl = imageUrl,
                                             extractedText = trim text, language = language,
                                             createdAt = int (now_created env)\<rparr>
                           in case save (docs st1) newRecord of
                                Inl msg \<Rightarrow> upload_catch pr st1 file msg
                              | Inr ds \<Rightarrow>
                                  (\<lparr>status = 201, payload = Upload_created newRecord\<rparr>,
                                   \<lparr>docs = ds,
                                    files = (if existsSync pr (files st1) processedPath
                                             then unlinkSync pr (files st1) processedPath
                                             else files st1)\<rparr>)))))"

text \<open>
  \<open>POST /api/upload\<close>: multer first (\<open>upload.single('image')\<close>: the file filter, then
  the disk storage under the size limit, which removes what it wrote when the limit is
  passed), then the handler, or the error-handling middleware on multer's error.
\<close>

definition post_upload :: "process \<Rightarrow> upload_env \<Rightarrow> server \<Rightarrow> upload_request \<Rightarrow> response \<times> server" where
  "post_upload pr env st req =
     (case file_part req of
        None \<Rightarrow> upload_handler pr env st None (body_language req)
      | Some file \<Rightarrow>
          if \<not> fileFilter file
          then (error_middleware (PlainError ''Only image files are allowed!''), st)
          else
            (let name = storage_filename env file;
                 dest = ''uploads/'' @ name;
                 written = st\<lparr>files := writeFile pr (files st) dest\<rparr>
             in if byte_count file > fileSize
                then (error_middleware (MulterError ''LIMIT_FILE_SIZE'' ''File too large''),
                      written\<lparr>files := unlinkSync pr (files written) dest\<rparr>)
                else upload_handler pr env written (Some \<lparr>path = dest, filename = name\<rparr>)
                       (body_language req)))"

section \<open>Notions of the specification\<close>

text \<open>The records of a list response (none for any other response).\<close>

definition listed :: "response \<Rightarrow> ocr_record list" where
  "listed r = (case payload r of Record_list rs n \<Rightarrow> rs | _ \<Rightarrow> [])"

text \<open>
  The specification's search: \<open>t\<close> contains \<open>s\<close> as a literal substring, compared
  case-insensitively.
\<close>

definition spec_contains_ci :: "string \<Rightarrow> string \<Rightarrow> bool" where
  "spec_contains_ci s t = sublist (toLowerCase s) (toLowerCase t)"

text \<open>The specification's orders on a listing, newest first.\<close>

definition non_increasing :: "ocr_record list \<Rightarrow> bool" where
  "non_increasing rs = sorted_wrt (\<lambda>a b. createdAt b \<le> createdAt a) rs"

definition strictly_descending :: "ocr_record list \<Rightarrow> bool" where
  "strictly_descending rs = sorted_wrt (\<lambda>a b. createdAt b < createdAt a) rs"

text \<open>A string names an allowed type: it contains one of the words of the allow-list.\<close>

definition names_allowed_type :: "string \<Rightarrow> bool" where
  "names_allowed_type s = list_ex (\<lambda>w. sublist w s) allowedTypes"

text \<open>The unique index on \<open>_id\<close>: no two documents of the collection share an id.\<close>

definition unique_ids :: "server \<Rightarrow> bool" where
  "unique_ids st = distinct (map rec_id (docs st))"

text \<open>The temporary file of a request, as the handler names it.\<close>

definition processedPath :: "upload_env \<Rightarrow> string" where
  "processedPath env = ''uploads/processed-'' @ dec (now_processed env) @ ''.png''"

text \<open>The language the handler passes on: the field of the body, or the default.\<close>

definition requested_language :: "upload_request \<Rightarrow> string" where
  "requested_language req =
     (case body_language req of None \<Rightarrow> ''eng'' | Some l \<Rightarrow> if l = [] then ''eng'' else l)"

text \<open>
  Names for what the upload route computes: the path multer stores the upload under, the
  document the handler builds, and the uploads that multer lets through to the handler.
\<close>

definition rawPath :: "upload_env \<Rightarrow> upload_file \<Rightarrow> string" where
  "rawPath env f = ''uploads/'' @ storage_filename env f"

definition new_record :: "upload_env \<Rightarrow> upload_file \<Rightarrow> upload_request \<Rightarrow> string \<Rightarrow> ocr_record" where
  "new_record env f req text =
     \<lparr>rec_id = new_id env, imageUrl = ''/uploads/'' @ storage_filename env f,
      extractedText = trim text, language = requested_language req,
      createdAt = int (now_created env)\<rparr>"

definition accepted :: "upload_request \<Rightarrow> upload_file \<Rightarrow> bool" where
  "accepted req f = (file_part req = Some f \<and> fileFilter f \<and> byte_count f \<le> fileSize)"

text \<open>An error response that leaves the collection as it was.\<close>

definition failed_with :: "response \<times> server \<Rightarrow> server \<Rightarrow> bool" where
  "failed_with out st =
     (400 \<le> status (fst out) \<and> (\<exists>e d. payload (fst out) = Failure e d) \<and> docs (snd out) = docs st)"

section \<open>Concrete requests\<close>

definition app_process :: process where
  "app_process = \<lparr>cwd = ''/srv/ocr'', dirname = ''/srv/ocr''\<rparr>"

definition empty_server :: server where
  "empty_server = \<lparr>docs = [], files = {}\<rparr>"

definition no_engine :: engine where
  "no_engine pat = Inl ''Regular expression is invalid''"

definition png_file :: upload_file where
  "png_file = \<lparr>originalname = ''scan.png'', mimetype = ''image/png'', byte_count = 512000\<rparr>"

definition png_request :: upload_request where
  "png_request = \<lparr>file_part = Some png_file, body_language = Some ''deu''\<rparr>"

definition env_a :: upload_env where
  "env_a = \<lparr>now_filename = 1700000000000, random_part = 123456789,
            now_processed = 1700000000001, sharp_error = None, recognize = Inr ''Invoice 42'',
            new_id = ''65a000000000000000000001'', now_created = 1700000000500\<rparr>"

definition env_b :: upload_env where
  "env_b = \<lparr>now_filename = 1700000000100, random_part = 987654321,
            now_processed = 1700000000101, sharp_error = None, recognize = Inr ''abc'',
            new_id = ''65a000000000000000000002'', now_created = 1700000000500\<rparr>"

definition record_a :: ocr_record where
  "record_a = \<lparr>rec_id = ''65a000000000000000000001'',
               imageUrl = ''/uploads/image-1700000000000-123456789.png'',
               extractedText = ''Invoice 42'', language = ''deu'', createdAt = 1700000000500\<rparr>"

definition record_b :: ocr_record where
  "record_b = \<lparr>rec_id = ''65a000000000000000000002'',
               imageUrl = ''/uploads/image-1700000000100-987654321.png'',
               extractedText = ''abc'', language = ''deu'', createdAt = 1700000000500\<rparr>"

definition one_upload :: server where
  "one_upload = snd (post_upload app_process env_a empty_server png_request)"

definition two_uploads :: server where
  "two_uploads = snd (post_upload app_process env_b one_upload png_request)"

definition ocr_down :: upload_env where
  "ocr_down = env_a\<lparr>recognize := Inl ''Error: tesseract worker terminated''\<rparr>"

definition blank_page :: upload_env where
  "blank_page = env_a\<lparr>recognize := Inr ''   ''\<rparr>"

definition exe_file :: upload_file where
  "exe_file = \<lparr>originalname = ''setup.exe'', mimetype = ''application/octet-stream'',
                byte_count = 512000\<rparr>"

definition exe_request :: upload_request where
  "exe_request = \<lparr>file_part = Some exe_file, body_language = None\<rparr>"

definition big_exe_request :: upload_request where
  "big_exe_request = \<lparr>file_part = Some (exe_file\<lparr>byte_count := 15728640\<rparr>), body_language = None\<rparr>"

definition pngx_file :: upload_file where
  "pngx_file = \<lparr>originalname = ''scan.pngx'', mimetype = ''image/png'', byte_count = 512000\<rparr>"

definition pngx_request :: upload_request where
  "pngx_request = \<lparr>file_part = Some pngx_file, body_language = None\<rparr>"

definition record_c :: ocr_record where
  "record_c = \<lparr>rec_id = ''65a000000000000000000003'',
               imageUrl = ''/uploads/image-1700000000900-555555555.png'',
               extractedText = ''Total due'', language = ''eng'', createdAt = 1700000000950\<rparr>"

definition later_server :: server where
  "later_server = \<lparr>docs = [record_a, record_c], files = {}\<rparr>"

section \<open>Strings and patterns\<close>

lemma toLowerCase_simps [simp]:
  "toLowerCase [] = []" "toLowerCase (c # cs) = to_lower_char c # toLowerCase cs"
  by (simp_all add: toLowerCase_def)

lemma alternatives_test_sublist:
  "alternatives_test ws s = list_ex (\<lambda>w. sublist w s) ws"
  by (induction s) (auto simp: list_ex_iff sublist_Cons_right)

lemma match_here_literal:
  "match_here (map Lit p) t = prefix (toLowerCase p) (toLowerCase t)"
proof (induction p arbitrary: t)
  case Nil
  show ?case by simp
next
  case (Cons c p)
  then show ?case by (cases t) auto
qed

lemma match_anywhere_literal:
  "match_anywhere (map Lit p) t = spec_contains_ci p t"
  unfolding spec_contains_ci_def
  by (induction t) (simp_all add: match_here_literal sublist_Cons_right)

lemma parse_pattern_literal:
  "list_all (\<lambda>c. c \<notin> set rx_special) p \<Longrightarrow> parse_pattern p = Some (map Lit p)"
  by (induction p) (auto simp: rx_special_def)

section \<open>Listing and searching\<close>

lemma sorted_desc: "non_increasing (sort_createdAt_desc ds)"
proof -
  have "sorted (map (\<lambda>d. - createdAt d) (sort_key (\<lambda>d. - createdAt d) ds))"
    by (rule sorted_sort_key)
  then show ?thesis
    by (simp add: sort_createdAt_desc_def non_increasing_def sorted_map)
qed

lemma strict_of_distinct:
  "sorted_wrt (\<lambda>a b. f b \<le> (f a :: int)) xs \<Longrightarrow> distinct (map f xs) \<Longrightarrow>
   sorted_wrt (\<lambda>a b. f b < f a) xs"
proof (induction xs)
  case Nil
  show ?case by simp
next
  case (Cons a xs)
  have "f b < f a" if "b \<in> set xs" for b
  proof -
    from Cons.prems(1) that have "f b \<le> f a" by simp
    moreover from Cons.prems(2) have "f a \<notin> f ` set xs" by simp
    with that have "f b \<noteq> f a" by (metis imageI)
    ultimately show ?thesis by simp
  qed
  with Cons show ?case by simp
qed

lemma strict_desc:
  assumes "distinct (map createdAt ds)"
  shows "strictly_descending (sort_createdAt_desc ds)"
proof -
  have "mset (map createdAt (sort_createdAt_desc ds)) = mset (map createdAt ds)"
    by (simp add: sort_createdAt_desc_def)
  then have "distinct (map createdAt (sort_createdAt_desc ds))"
    using assms by (metis mset_eq_imp_distinct_iff)
  with sorted_desc[of ds] show ?thesis
    unfolding non_increasing_def strictly_descending_def by (rule strict_of_distinct)
qed

lemma get_records_all:
  "get_records beyond st None =
     \<lparr>status = 200,
      payload = Record_list (sort_createdAt_desc (docs st)) (length (docs st))\<rparr>"
  by (simp add: get_records_def find_docs_def sort_createdAt_desc_def)

lemma get_records_empty_search:
  "get_records beyond st (Some []) = get_records beyond st None"
  by (simp add: get_records_def)

lemma get_records_literal:
  assumes "s \<noteq> []" and "list_all (\<lambda>c. c \<notin> set rx_special) s"
  shows "get_records beyond st (Some s) =
     (let rs = filter (\<lambda>d. spec_contains_ci s (extractedText d)) (listed (get_records beyond st None))
      in \<lparr>status = 200, payload = Record_list rs (length rs)\<rparr>)"
  using assms
  by (simp add: get_records_def find_docs_def regex_i_def parse_pattern_literal listed_def
      match_anywhere_literal sort_createdAt_desc_def filter_sort Let_def)

section \<open>Outcomes of an upload\<close>

lemma new_record_simps [simp]:
  "rec_id (new_record env f req t) = new_id env"
  "imageUrl (new_record env f req t) = ''/uploads/'' @ storage_filename env f"
  "extractedText (new_record env f req t) = trim t"
  "language (new_record env f req t) = requested_language req"
  "createdAt (new_record env f req t) = int (now_created env)"
  by (simp_all add: new_record_def)

lemma resolve_relative:
  "resolve pr (''uploads/'' @ p) = cwd pr @ ''/uploads/'' @ p"
  by (simp add: resolve_def)

lemma processed_not_raw:
  "resolve pr (processedPath env) \<noteq> resolve pr (rawPath env f)"
  by (simp add: processedPath_def rawPath_def storage_filename_def resolve_def)

lemma post_upload_no_file:
  "file_part req = None \<Longrightarrow>
   post_upload pr env st req =
     (\<lparr>status = 400, payload = Failure ''No image file uploaded'' None\<rparr>, st)"
  by (simp add: post_upload_def upload_handler_def)

lemma post_upload_filtered:
  "file_part req = Some f \<Longrightarrow> \<not> fileFilter f \<Longrightarrow>
   post_upload pr env st req =
     (\<lparr>status = 500,
       payload = Failure ''Something went wrong!'' (Some ''Only image files are allowed!'')\<rparr>, st)"
  by (simp add: post_upload_def)

lemma post_upload_too_large:
  "file_part req = Some f \<Longrightarrow> fileFilter f \<Longrightarrow> fileSize < byte_count f \<Longrightarrow>
   post_upload pr env st req =
     (\<lparr>status = 400, payload = Failure ''File too large. Maximum size is 10MB.'' None\<rparr>,
      st\<lparr>files := files st - {resolve pr (rawPath env f)}\<rparr>)"
  by (simp add: post_upload_def rawPath_def Let_def writeFile_def unlinkSync_def)

lemma post_upload_sharp_fails:
  "accepted req f \<Longrightarrow> sharp_error env = Some msg \<Longrightarrow>
   post_upload pr env st req =
     (\<lparr>status = 500, payload = Failure ''Failed to process image'' (Some msg)\<rparr>,
      st\<lparr>files := files st - {resolve pr (rawPath env f)}\<rparr>)"
  by (simp add: accepted_def post_upload_def upload_handler_def upload_catch_def rawPath_def
      Let_def writeFile_def unlinkSync_def existsSync_def)

lemma post_upload_recognize_fails:
  "accepted req f \<Longrightarrow> sharp_error env = None \<Longrightarrow> recognize env = Inl msg \<Longrightarrow>
   post_upload pr env st req =
     (\<lparr>status = 500, payload = Failure ''Failed to process image'' (Some msg)\<rparr>,
      st\<lparr>files := insert (resolve pr (processedPath env)) (files st - {resolve pr (rawPath env f)})\<rparr>)"
  using processed_not_raw[of pr env f]
  by (simp add: accepted_def post_upload_def upload_handler_def upload_catch_def rawPath_def
      processedPath_def Let_def writeFile_def unlinkSync_def existsSync_def insert_Diff_if)

lemma post_upload_save_fails:
  "accepted req f \<Longrightarrow> sharp_error env = None \<Longrightarrow> recognize env = Inr text \<Longrightarrow>
   save (docs st) (new_record env f req text) = Inl msg \<Longrightarrow>
   post_upload pr env st req =
     (\<lparr>status = 500, payload = Failure ''Failed to process image'' (Some msg)\<rparr>,
      st\<lparr>files := insert (resolve pr (processedPath env)) (files st - {resolve pr (rawPath env f)})\<rparr>)"
  using processed_not_raw[of pr env f]
  by (simp add: accepted_def post_upload_def upload_handler_def upload_catch_def rawPath_def
      processedPath_def Let_def writeFile_def unlinkSync_def existsSync_def insert_Diff_if
      new_record_def requested_language_def)

lemma post_upload_saved:
  "accepted req f \<Longrightarrow> sharp_error env = None \<Longrightarrow> recognize env = Inr text \<Longrightarrow>
   save (docs st) (new_record env f req text) = Inr ds \<Longrightarrow>
   post_upload pr env st req =
     (\<lparr>status = 201, payload = Upload_created (new_record env f req text)\<rparr>,
      \<lparr>docs = ds,
       files = insert (resolve pr (rawPath env f)) (files st) - {resolve pr (processedPath env)}\<rparr>)"
  by (simp add: accepted_def post_upload_def upload_handler_def rawPath_def
      processedPath_def Let_def writeFile_def unlinkSync_def existsSync_def
      new_record_def requested_language_def)

lemma extname_scan_png: "extname ''scan.png'' = ''.png''"
  by code_simp

lemma png_file_accepted: "accepted png_request png_file"
  by (simp add: accepted_def png_request_def png_file_def fileFilter_def extname_scan_png
      allowedTypes_def fileSize_def to_lower_char_def)

lemma dec_examples:
  "dec 1700000000000 = ''1700000000000''" "dec 123456789 = ''123456789''"
  "dec 1700000000001 = ''1700000000001''" "dec 1700000000100 = ''1700000000100''"
  "dec 987654321 = ''987654321''" "dec 1700000000101 = ''1700000000101''" 
  by (simp_all add: dec.simps digit_char_def)



lemma post_upload_outcomes:
  "failed_with (post_upload pr env st req) st \<or>
   (\<exists>f text. accepted req f \<and> sharp_error env = None \<and> recognize env = Inr text \<and>
           validate (new_record env f req text) = None \<and> new_id env \<notin> rec_id ` set (docs st) \<and>
           post_upload pr env st req =
             (\<lparr>status = 201, payload = Upload_created (new_record env f req text)\<rparr>,
              \<lparr>docs = docs st @ [new_record env f req text],
               files = insert (resolve pr (rawPath env f)) (files st) - {resolve pr (processedPath env)}\<rparr>))"
  (is "?failed \<or> ?saved")
proof (cases "file_part req")
  case None
  have ?failed
    by (simp add: failed_with_def post_upload_no_file[OF None])
  then show ?thesis ..
next
  case (Some f)
  show ?thesis
  proof (cases "fileFilter f")
    case False
    have ?failed
      by (simp add: failed_with_def post_upload_filtered[OF Some False])
    then show ?thesis ..
  next
    case filter: True
    show ?thesis
    proof (cases "fileSize < byte_count f")
      case True
      have ?failed
        by (simp add: failed_with_def post_upload_too_large[OF Some filter True])
      then show ?thesis ..
    next
      case False
      with Some filter have acc: "accepted req f" by (simp add: accepted_def)
      show ?thesis
      proof (cases "sharp_error env")
        case (Some msg)
        have ?failed
          by (simp add: failed_with_def post_upload_sharp_fails[OF acc Some])
        then show ?thesis ..
      next
        case None
        note sharp = this
        show ?thesis
        proof (cases "recognize env")
          case (Inl msg)
          have ?failed
            by (simp add: failed_with_def post_upload_recognize_fails[OF acc sharp Inl])
          then show ?thesis ..
        next
          case (Inr t)
          show ?thesis
          proof (cases "save (docs st) (new_record env f req t)")
            case (Inl msg)
            have ?failed
              by (simp add: failed_with_def post_upload_save_fails[OF acc sharp Inr Inl])
            then show ?thesis ..
          next
            case saved: (Inr ds)
            have v: "validate (new_record env f req t) = None"
              using saved by (simp add: save_def split: option.splits)
            with saved have fresh: "new_id env \<notin> rec_id ` set (docs st)"
              and ds: "ds = docs st @ [new_record env f req t]"
              by (auto simp: save_def split: if_splits)
            from post_upload_saved[OF acc sharp Inr saved, of pr] acc sharp Inr v fresh ds
            have ?saved by blast
            then show ?thesis ..
          qed
        qed
      qed
    qed
  qed
qed


lemma post_upload_docs:
  "docs (snd (post_upload pr env st req)) = docs st \<or>
   (\<exists>d. rec_id d \<notin> rec_id ` set (docs st) \<and> docs (snd (post_upload pr env st req)) = docs st @ [d])"
  using post_upload_outcomes[of pr env st req]
  by (auto simp: failed_with_def)

lemma unique_ids_empty: "unique_ids empty_server"
  by (simp add: unique_ids_def empty_server_def)

lemma unique_ids_post_upload:
  "unique_ids st \<Longrightarrow> unique_ids (snd (post_upload pr env st req))"
  using post_upload_docs[of pr env st req] by (auto simp: unique_ids_def)

lemma set_delete_first: "set (delete_first P ds) \<subseteq> set ds"
  by (induction ds) auto

lemma delete_first_distinct:
  "distinct (map g ds) \<Longrightarrow> distinct (map g (delete_first P ds))"
proof (induction ds)
  case Nil
  show ?case by simp
next
  case (Cons d ds)
  have "g d \<notin> g ` set (delete_first P ds)"
    using Cons.prems set_delete_first[of P ds] by auto
  with Cons show ?case by simp
qed

lemma find_delete_first:
  "distinct (map rec_id ds) \<Longrightarrow>
   find (\<lambda>d. rec_id d = i) (delete_first (\<lambda>d. rec_id d = i) ds) = None"
  by (induction ds) (auto simp: find_None_iff image_iff)

lemma find_present:
  "i \<in> rec_id ` set ds \<Longrightarrow> \<exists>d. find (\<lambda>d. rec_id d = i) ds = Some d"
  by (cases "find (\<lambda>d. rec_id d = i) ds") (auto simp: find_None_iff)

lemma delete_record_present:
  assumes "castObjectId v = Some i" and "find (\<lambda>d. rec_id d = i) (docs st) = Some d"
  shows "delete_record pr st v =
           (\<lparr>status = 200, payload = Record_deleted\<rparr>,
            \<lparr>docs = delete_first (\<lambda>d. rec_id d = i) (docs st),
             files = files st - {resolve pr (dirname pr @ imageUrl d)}\<rparr>)"
  using assms
  by (simp add: delete_record_def findById_def findByIdAndDelete_def existsSync_def
      unlinkSync_def Let_def)

lemma delete_record_absent:
  assumes "castObjectId v = Some i" and "find (\<lambda>d. rec_id d = i) (docs st) = None"
  shows "delete_record pr st v =
           (\<lparr>status = 404, payload = Failure ''Record not found'' None\<rparr>, st)"
  using assms by (simp add: delete_record_def findById_def)

lemma delete_record_malformed:
  assumes "castObjectId v = None"
  shows "delete_record pr st v =
           (\<lparr>status = 500, payload = Failure ''Failed to delete record'' (Some (cast_error v))\<rparr>, st)"
  using assms by (simp add: delete_record_def findById_def)

lemma get_record_malformed:
  assumes "castObjectId v = None"
  shows "get_record st v =
           \<lparr>status = 500, payload = Failure ''Failed to fetch record'' (Some (cast_error v))\<rparr>"
  using assms by (simp add: get_record_def findById_def)

lemma get_record_absent:
  assumes "castObjectId v = Some i" and "find (\<lambda>d. rec_id d = i) (docs st) = None"
  shows "get_record st v = \<lparr>status = 404, payload = Failure ''Record not found'' None\<rparr>"
  using assms by (simp add: get_record_def findById_def)

lemma get_record_present:
  assumes "castObjectId v = Some i" and "find (\<lambda>d. rec_id d = i) (docs st) = Some d"
  shows "get_record st v = \<lparr>status = 200, payload = Record_found d\<rparr>"
  using assms by (simp add: get_record_def findById_def)

lemma unique_ids_delete_record:
  "unique_ids st \<Longrightarrow> unique_ids (snd (delete_record pr st v))"
proof (cases "castObjectId v")
  case None
  then show "unique_ids st \<Longrightarrow> ?thesis" by (simp add: delete_record_malformed)
next
  case (Some i)
  show "unique_ids st \<Longrightarrow> ?thesis"
  proof (cases "find (\<lambda>d. rec_id d = i) (docs st)")
    case None
    with Some show "unique_ids st \<Longrightarrow> ?thesis" by (simp add: delete_record_absent)
  next
    case (Some d)
    with \<open>castObjectId v = Some i\<close> show "unique_ids st \<Longrightarrow> ?thesis"
      by (simp add: delete_record_present unique_ids_def delete_first_distinct)
  qed
qed

section \<open>Evaluating the concrete requests\<close>

lemma first_upload_eq:
  "post_upload app_process env_a empty_server png_request =
     (\<lparr>status = 201, payload = Upload_created record_a\<rparr>,
      \<lparr>docs = [record_a], files = {''/srv/ocr/uploads/image-1700000000000-123456789.png''}\<rparr>)"
proof -
  have new: "new_record env_a png_file png_request ''Invoice 42'' = record_a"
    by (simp add: new_record_def env_a_def png_file_def png_request_def requested_language_def
        record_a_def trim_def is_space_def storage_filename_def dec_examples extname_scan_png)
  have "save (docs empty_server) (new_record env_a png_file png_request ''Invoice 42'') =
          Inr [record_a]"
    unfolding new by (simp add: save_def validate_def empty_server_def record_a_def)
  from post_upload_saved[OF png_file_accepted _ _ this, of app_process]
  show ?thesis
    unfolding new
    by (simp add: env_a_def empty_server_def rawPath_def processedPath_def resolve_def
        app_process_def storage_filename_def png_file_def extname_scan_png dec_examples)
qed

lemma one_upload_eq:
  "one_upload =
     \<lparr>docs = [record_a], files = {''/srv/ocr/uploads/image-1700000000000-123456789.png''}\<rparr>"
  by (simp add: one_upload_def first_upload_eq)

lemma two_uploads_eq:
  "two_uploads = \<lparr>docs = [record_a, record_b],
      files = {''/srv/ocr/uploads/image-1700000000000-123456789.png'',
               ''/srv/ocr/uploads/image-1700000000100-987654321.png''}\<rparr>"
proof -
  have "save (docs one_upload) (new_record env_b png_file png_request ''abc'') = Inr [record_a, record_b]"
    by (simp add: save_def validate_def one_upload_eq new_record_def env_b_def png_file_def
     png_request_def requested_language_def record_a_def record_b_def trim_def is_space_def storage_filename_def
     dec_examples extname_scan_png)
  from post_upload_saved[OF png_file_accepted _ _ this, of app_process]
  show ?thesis
    by (simp add: two_uploads_def env_b_def one_upload_eq rawPath_def processedPath_def resolve_def
       app_process_def storage_filename_def png_file_def extname_scan_png dec_examples insert_commute)
qed

lemma extname_examples:
  "extname ''setup.exe'' = ''.exe''" "extname ''scan.pngx'' = ''.pngx''"
  by code_simp+

lemma exe_file_filtered: "\<not> fileFilter exe_file"
  by (simp add: exe_file_def fileFilter_def extname_examples allowedTypes_def to_lower_char_def)

lemma big_exe_filtered: "\<not> fileFilter (exe_file\<lparr>byte_count := 15728640\<rparr>)"
  by (simp add: exe_file_def fileFilter_def extname_examples allowedTypes_def to_lower_char_def)

lemma pngx_file_accepted: "accepted pngx_request pngx_file"
  by (simp add: accepted_def pngx_request_def pngx_file_def fileFilter_def extname_examples
      allowedTypes_def fileSize_def to_lower_char_def)

lemma cast_examples:
  "castObjectId ''abc'' = None"
  "castObjectId ''65A0000000000000000000FF'' = Some ''65a0000000000000000000ff''"
  "castObjectId ''65a000000000000000000001'' = Some ''65a000000000000000000001''"
  "castObjectId ''abcdefghijkl'' = None"
  by (simp_all add: castObjectId_def is_hex_def to_lower_char_def)

section \<open>What an upload keeps when it fails or succeeds\<close>

text \<open>
  When the recognition throws after the preprocessing succeeded, the response is the
  error, the collection is as it was and the raw upload is gone; the temporary file
  written by the preprocessing is on disk.
\<close>

lemma recognition_failure_outcome:
  assumes "accepted req f" and "sharp_error env = None" and "recognize env = Inl msg"
  shows "status (fst (post_upload pr env st req)) = 500"
    and "docs (snd (post_upload pr env st req)) = docs st"
    and "resolve pr (rawPath env f) \<notin> files (snd (post_upload pr env st req))"
    and "resolve pr (processedPath env) \<in> files (snd (post_upload pr env st req))"
  using processed_not_raw[of pr env f]
  by (simp_all add: post_upload_recognize_fails[OF assms] processed_not_raw[symmetric])

text \<open>
  A text that trims to the empty string never reaches the collection: the schema refuses
  it, and the request ends in the handler's \<open>catch\<close>.
\<close>

lemma blank_text_outcome:
  assumes "accepted req f" and "sharp_error env = None" and "recognize env = Inr t"
    and "trim t = []"
  shows "status (fst (post_upload pr env st req)) = 500"
    and "docs (snd (post_upload pr env st req)) = docs st"
proof -
  have "validate (new_record env f req t) \<noteq> None"
    using assms(4) by (simp add: validate_def)
  then obtain msg where "save (docs st) (new_record env f req t) = Inl msg"
    by (auto simp: save_def)
  from post_upload_save_fails[OF assms(1-3) this, of pr]
  show "status (fst (post_upload pr env st req)) = 500"
    and "docs (snd (post_upload pr env st req)) = docs st"
    by simp_all
qed

text \<open>The text of a stored record is the trimmed recognized text, and it is not empty.\<close>

lemma stored_text_outcome:
  assumes "status (fst (post_upload pr env st req)) = 201"
  shows "\<exists>r t. recognize env = Inr t \<and> payload (fst (post_upload pr env st req)) = Upload_created r \<and>
               docs (snd (post_upload pr env st req)) = docs st @ [r] \<and>
               extractedText r = trim t \<and> trim t \<noteq> []"
proof -
  from post_upload_outcomes[of pr env st req] assms
  obtain f t where ok: "recognize env = Inr t" "validate (new_record env f req t) = None"
    and out: "post_upload pr env st req =
             (\<lparr>status = 201, payload = Upload_created (new_record env f req t)\<rparr>,
              \<lparr>docs = docs st @ [new_record env f req t],
               files = insert (resolve pr (rawPath env f)) (files st) - {resolve pr (processedPath env)}\<rparr>)"
    by (auto simp: failed_with_def)
  from ok(2) have "trim t \<noteq> []"
    by (auto simp: validate_def split: if_splits)
  with ok(1) out show ?thesis by simp
qed

text \<open>
  An upload of an allowed type over the size limit is answered 400; nothing is inserted and
  the file multer wrote is removed.
\<close>

lemma oversized_image_outcome:
  assumes "file_part req = Some f" and "fileFilter f" and "fileSize < byte_count f"
  shows "status (fst (post_upload pr env st req)) = 400"
    and "docs (snd (post_upload pr env st req)) = docs st"
    and "files (snd (post_upload pr env st req)) \<subseteq> files st"
    and "resolve pr (rawPath env f) \<notin> files (snd (post_upload pr env st req))"
  by (auto simp: post_upload_too_large[OF assms])

section \<open>The claims\<close>

subsection \<open>C1: a failed recognition\<close>

text \<open>
  C1 says that when the recognition throws after the preprocessing succeeded, the upload
  returns an error, inserts no record and removes both the raw upload and the temporary
  preprocessed file. On the request below the recognition throws: the answer is the 500 of
  the handler's \<open>catch\<close>, the collection stays empty and the raw upload is removed,
  but the temporary file \<open>processed-1700000000001.png\<close> is still on disk. The
  \<open>catch\<close> block unlinks \<open>req.file.path\<close> only; the success path is the one that
  unlinks \<open>processedPath\<close>.
\<close>

theorem recognition_failure_leaves_temp_file:
  "post_upload app_process ocr_down empty_server png_request =
     (\<lparr>status = 500,
       payload = Failure ''Failed to process image'' (Some ''Error: tesseract worker terminated'')\<rparr>,
      \<lparr>docs = [], files = {''/srv/ocr/uploads/processed-1700000000001.png''}\<rparr>)"
proof -
  have "sharp_error ocr_down = None"
    and "recognize ocr_down = Inl ''Error: tesseract worker terminated''"
    by (simp_all add: ocr_down_def env_a_def)
  from post_upload_recognize_fails[OF png_file_accepted this]
  show ?thesis
    by (simp add: empty_server_def processedPath_def ocr_down_def env_a_def dec_examples
        app_process_def resolve_def)
qed

subsection \<open>C2: searching\<close>

text \<open>
  C2 says that a non-empty search string selects exactly the records whose text contains it
  as a literal substring, case-insensitively, with no pattern interpretation. The route
  hands the string to \<open>$regex\<close>: searching for \<open>a.c\<close> returns the record whose text is
  \<open>abc\<close>, which does not contain \<open>a.c\<close>.
\<close>

theorem search_reads_pattern:
  "listed (get_records no_engine two_uploads (Some ''a.c'')) = [record_b] \<and>
   \<not> spec_contains_ci ''a.c'' (extractedText record_b)"
  by (simp add: two_uploads_eq get_records_def find_docs_def sort_createdAt_desc_def
      listed_def regex_i_def rx_special_def spec_contains_ci_def to_lower_char_def sublist_code
      record_a_def record_b_def)

subsection \<open>C3: validation of the file type\<close>

text \<open>
  C3 as stated fails twice. A file named \<open>scan.pngx\<close> with content type
  \<open>image/png\<close> passes the filter and is stored, although \<open>pngx\<close> is not a word of
  the allow-list; and the upload of \<open>setup.exe\<close> is answered 500, not 400.
\<close>

theorem type_validation_counterexample:
  "drop 1 (toLowerCase (extname (originalname pngx_file))) \<notin> set allowedTypes \<and>
   status (fst (post_upload app_process env_a empty_server pngx_request)) = 201 \<and>
   status (fst (post_upload app_process env_a empty_server exe_request)) = 500"
proof -
  have "drop 1 (toLowerCase (extname (originalname pngx_file))) \<notin> set allowedTypes"
    by (simp add: pngx_file_def extname_examples allowedTypes_def to_lower_char_def)
  moreover have "save (docs empty_server) (new_record env_a pngx_file pngx_request ''Invoice 42'')
      = Inr [new_record env_a pngx_file pngx_request ''Invoice 42'']"
    by (simp add: save_def validate_def empty_server_def trim_def is_space_def)
  from post_upload_saved[OF pngx_file_accepted _ _ this, of app_process]
  have "status (fst (post_upload app_process env_a empty_server pngx_request)) = 201"
    by (simp add: env_a_def)
  moreover from post_upload_filtered[OF _ exe_file_filtered, of exe_request app_process env_a empty_server]
  have "status (fst (post_upload app_process env_a empty_server exe_request)) = 500"
    by (simp add: exe_request_def)
  ultimately show ?thesis by simp
qed

text \<open>
  C3, amended: an upload passes the validation exactly when its lower-cased extension and
  its content type each contain a word of the allow-list; an upload that does not pass is
  answered with an error response, and the collection and the storage directory are as
  they were.
\<close>

theorem type_validation:
  assumes "file_part req = Some f"
  shows "fileFilter f =
           (names_allowed_type (toLowerCase (extname (originalname f))) \<and>
            names_allowed_type (mimetype f)) \<and>
         (\<not> fileFilter f \<longrightarrow>
            400 \<le> status (fst (post_upload pr env st req)) \<and>
            (\<exists>e d. payload (fst (post_upload pr env st req)) = Failure e d) \<and>
            snd (post_upload pr env st req) = st)"
  using assms
  by (auto simp: fileFilter_def names_allowed_type_def alternatives_test_sublist
      post_upload_filtered Let_def)

theorem type_validation_witness:
  "file_part exe_request = Some exe_file \<and> \<not> fileFilter exe_file \<and>
   400 \<le> status (fst (post_upload app_process env_a empty_server exe_request)) \<and>
   snd (post_upload app_process env_a empty_server exe_request) = empty_server"
proof -
  have part: "file_part exe_request = Some exe_file"
    by (simp add: exe_request_def)
  from type_validation[OF part, of app_process env_a empty_server] exe_file_filtered part
  show ?thesis by simp
qed

subsection \<open>C4: malformed ids\<close>

text \<open>
  C4 as stated fails: the ids \<open>abc\<close> and \<open>abcdefghijkl\<close> cannot be cast to an
  ObjectId, and both routes answer 500, not 404.
\<close>

theorem malformed_id_counterexample:
  "status (get_record two_uploads ''abc'') = 500 \<and>
   status (fst (delete_record app_process two_uploads ''abc'')) = 500 \<and>
   status (get_record two_uploads ''abcdefghijkl'') = 500 \<and>
   status (fst (delete_record app_process two_uploads ''abcdefghijkl'')) = 500"
  by (simp add: get_record_malformed delete_record_malformed castObjectId_def)

text \<open>
  C4, amended: for an id parameter \<open>v\<close> that cannot be cast (any string that is not
  24 hexadecimal digits), both routes catch the cast error and answer 500 with its message,
  and the state is as it was; 404 is the answer to an id \<open>w\<close> of 24 hexadecimal
  digits that is not in the collection.
\<close>

theorem malformed_id_server_error:
  assumes "castObjectId v = None"
    and "castObjectId w = Some i" and "i \<notin> rec_id ` set (docs st)"
  shows "get_record st v =
           \<lparr>status = 500, payload = Failure ''Failed to fetch record'' (Some (cast_error v))\<rparr> \<and>
         delete_record pr st v =
           (\<lparr>status = 500, payload = Failure ''Failed to delete record'' (Some (cast_error v))\<rparr>, st) \<and>
         get_record st w = \<lparr>status = 404, payload = Failure ''Record not found'' None\<rparr> \<and>
         delete_record pr st w = (\<lparr>status = 404, payload = Failure ''Record not found'' None\<rparr>, st)"
proof -
  from assms(3) have "find (\<lambda>d. rec_id d = i) (docs st) = None"
    by (auto simp: find_None_iff)
  with assms(1,2) show ?thesis
    by (simp add: get_record_malformed delete_record_malformed get_record_absent
        delete_record_absent)
qed

theorem malformed_id_server_error_witness:
  "status (get_record two_uploads ''abcdefghijkl'') = 500 \<and>
   snd (delete_record app_process two_uploads ''abcdefghijkl'') = two_uploads \<and>
   status (get_record two_uploads ''65A0000000000000000000FF'') = 404 \<and>
   status (fst (delete_record app_process two_uploads ''65A0000000000000000000FF'')) = 404"
proof -
  have "''65a0000000000000000000ff'' \<notin> rec_id ` set (docs two_uploads)"
    by (simp add: two_uploads_eq record_a_def record_b_def)
  from malformed_id_server_error[OF cast_examples(4) cast_examples(2) this, of app_process]
  show ?thesis by simp
qed

subsection \<open>C5: an empty text\<close>

text \<open>
  C5 says that an upload whose recognized text is empty or white space only is stored, with
  the empty string as its text. On the request below the recognition returns three spaces:
  the trimmed text is empty, the \<open>required\<close> validator of \<open>extractedText\<close> refuses the
  document, and the upload ends in the \<open>catch\<close> block with a 500 and no record.
\<close>

theorem blank_page_refused:
  "post_upload app_process blank_page empty_server png_request =
     (\<lparr>status = 500,
       payload = Failure ''Failed to process image''
         (Some ''Record validation failed: extractedText: Path `extractedText` is required.'')\<rparr>,
      \<lparr>docs = [], files = {''/srv/ocr/uploads/processed-1700000000001.png''}\<rparr>)"
proof -
  have "sharp_error blank_page = None" and "recognize blank_page = Inr ''   ''"
    by (simp_all add: blank_page_def env_a_def)
  moreover have "save (docs empty_server) (new_record blank_page png_file png_request ''   '')
      = Inl ''Record validation failed: extractedText: Path `extractedText` is required.''"
    by (simp add: save_def validate_def trim_def is_space_def required_error_def)
  ultimately show ?thesis
    using post_upload_save_fails[OF png_file_accepted, of blank_page "''   ''" empty_server _ app_process]
    by (simp add: empty_server_def processedPath_def blank_page_def env_a_def dec_examples
        app_process_def resolve_def)
qed

subsection \<open>C6: deleting\<close>

text \<open>
  C6: in a collection with unique ids, deleting by an id that is present succeeds; and
  after any successful delete by an id, fetching by that id and deleting by it once more
  both answer 404.
\<close>

theorem delete_then_not_found:
  assumes "unique_ids st"
  shows "(\<forall>i. castObjectId v = Some i \<and> i \<in> rec_id ` set (docs st) \<longrightarrow>
            fst (delete_record pr st v) = \<lparr>status = 200, payload = Record_deleted\<rparr>) \<and>
         (status (fst (delete_record pr st v)) = 200 \<longrightarrow>
            get_record (snd (delete_record pr st v)) v =
              \<lparr>status = 404, payload = Failure ''Record not found'' None\<rparr> \<and>
            fst (delete_record pr (snd (delete_record pr st v)) v) =
              \<lparr>status = 404, payload = Failure ''Record not found'' None\<rparr>)"
proof (cases "castObjectId v")
  case None
  then show ?thesis by (simp add: delete_record_malformed)
next
  case (Some i)
  show ?thesis
  proof (cases "find (\<lambda>d. rec_id d = i) (docs st)")
    case None
    then have "i \<notin> rec_id ` set (docs st)"
      by (auto simp: find_None_iff)
    with Some None show ?thesis by (simp add: delete_record_absent)
  next
    case found: (Some d)
    let ?st' = "\<lparr>docs = delete_first (\<lambda>d. rec_id d = i) (docs st),
                  files = files st - {resolve pr (dirname pr @ imageUrl d)}\<rparr>"
    have del: "delete_record pr st v = (\<lparr>status = 200, payload = Record_deleted\<rparr>, ?st')"
      by (rule delete_record_present[OF Some found])
    have gone: "find (\<lambda>d. rec_id d = i) (docs ?st') = None"
      using assms by (simp add: unique_ids_def find_delete_first)
    from del Some get_record_absent[OF Some gone] delete_record_absent[OF Some gone, of pr]
    show ?thesis by simp
  qed
qed

theorem delete_then_not_found_witness:
  "unique_ids two_uploads \<and>
   fst (delete_record app_process two_uploads ''65a000000000000000000001'') =
     \<lparr>status = 200, payload = Record_deleted\<rparr> \<and>
   status (get_record (snd (delete_record app_process two_uploads ''65a000000000000000000001''))
     ''65a000000000000000000001'') = 404 \<and>
   status (fst (delete_record app_process
     (snd (delete_record app_process two_uploads ''65a000000000000000000001''))
     ''65a000000000000000000001'')) = 404"
proof -
  have u: "unique_ids two_uploads"
    by (simp add: unique_ids_def two_uploads_eq record_a_def record_b_def)
  have "''65a000000000000000000001'' \<in> rec_id ` set (docs two_uploads)"
    by (simp add: two_uploads_eq record_a_def record_b_def)
  with delete_then_not_found[OF u, of "''65a000000000000000000001''" app_process] cast_examples(3) u
  show ?thesis by simp
qed

subsection \<open>C7: the order of a listing\<close>

text \<open>
  C7 as stated fails: two uploads whose documents are created in the same millisecond are
  both listed, and the listing is not strictly descending.
\<close>

theorem listing_ties_counterexample:
  "\<not> strictly_descending (listed (get_records no_engine two_uploads None))"
  by (simp add: two_uploads_eq get_records_all sort_createdAt_desc_def
      listed_def strictly_descending_def record_a_def record_b_def)

text \<open>
  C7, amended: the listing without a search holds every record of the collection, in
  non-increasing order of \<open>createdAt\<close>, newest first; it is strictly descending when no
  two records share a \<open>createdAt\<close>.
\<close>

theorem listing_newest_first:
  "get_records beyond st None =
     \<lparr>status = 200, payload = Record_list (listed (get_records beyond st None)) (length (docs st))\<rparr> \<and>
   mset (listed (get_records beyond st None)) = mset (docs st) \<and>
   non_increasing (listed (get_records beyond st None)) \<and>
   (distinct (map createdAt (docs st)) \<longrightarrow>
      strictly_descending (listed (get_records beyond st None)))"
  by (simp add: get_records_all listed_def sorted_desc strict_desc)
     (simp add: sort_createdAt_desc_def)

theorem listing_newest_first_witness:
  "distinct (map createdAt (docs later_server)) \<and>
   listed (get_records no_engine later_server None) = [record_c, record_a] \<and>
   strictly_descending (listed (get_records no_engine later_server None))"
proof -
  have d: "distinct (map createdAt (docs later_server))"
    by (simp add: later_server_def record_a_def record_c_def)
  have "listed (get_records no_engine later_server None) = [record_c, record_a]"
    by (simp add: get_records_all listed_def later_server_def sort_createdAt_desc_def
        record_a_def record_c_def)
  with listing_newest_first[of no_engine later_server] d show ?thesis by simp
qed

subsection \<open>C8: the size limit\<close>

text \<open>
  C8 says that every upload over the size limit is answered 400. Multer runs the file
  filter before it stores anything, so the 15 MiB upload of \<open>setup.exe\<close> is refused by
  the filter, whose error the error-handling middleware answers with 500.
\<close>

theorem oversized_executable_answered_500:
  "post_upload app_process env_a empty_server big_exe_request =
     (\<lparr>status = 500,
       payload = Failure ''Something went wrong!'' (Some ''Only image files are allowed!'')\<rparr>,
      empty_server)"
  using post_upload_filtered[OF _ big_exe_filtered, of big_exe_request app_process env_a empty_server]
  by (simp add: big_exe_request_def)

subsection \<open>C9: the language of a record\<close>

text \<open>
  C9: a successful upload appends one record to the collection, the one it returns; its
  language is the language of the request when that is given and not empty, and
  \<open>eng\<close> when it is omitted or empty.
\<close>

theorem stored_language:
  assumes "status (fst (post_upload pr env st req)) = 201"
  shows "\<exists>r. payload (fst (post_upload pr env st req)) = Upload_created r \<and>
             docs (snd (post_upload pr env st req)) = docs st @ [r] \<and>
             (\<forall>l. body_language req = Some l \<and> l \<noteq> [] \<longrightarrow> language r = l) \<and>
             (body_language req = None \<or> body_language req = Some [] \<longrightarrow> language r = ''eng'')"
  using post_upload_outcomes[of pr env st req] assms
  by (auto simp: failed_with_def requested_language_def)

theorem stored_language_witness:
  "status (fst (post_upload app_process env_a empty_server png_request)) = 201 \<and>
   (\<exists>r. payload (fst (post_upload app_process env_a empty_server png_request)) = Upload_created r \<and>
        docs (snd (post_upload app_process env_a empty_server png_request)) = [r] \<and>
        language r = ''deu'')"
proof -
  have s: "status (fst (post_upload app_process env_a empty_server png_request)) = 201"
    by (simp add: first_upload_eq)
  have "body_language png_request = Some ''deu''" and "docs empty_server = []"
    by (simp_all add: png_request_def empty_server_def)
  with stored_language[OF s] s show ?thesis by auto
qed

subsection \<open>C10: the count of a listing\<close>

text \<open>
  C10: in every successful answer of \<open>GET /api/records\<close>, with or without a search,
  \<open>count\<close> is the number of records in the same answer.
\<close>

theorem records_count:
  assumes "status (get_records beyond st search) = 200"
  shows "\<exists>rs. payload (get_records beyond st search) = Record_list rs (length rs)"
  using assms by (auto simp: get_records_def Let_def split: sum.splits)

theorem records_count_witness:
  "status (get_records no_engine two_uploads (Some ''ABC'')) = 200 \<and>
   (\<exists>rs. payload (get_records no_engine two_uploads (Some ''ABC'')) = Record_list rs (length rs))"
proof -
  have "status (get_records no_engine two_uploads (Some ''ABC'')) = 200"
    by (simp add: get_records_literal rx_special_def Let_def)
  with records_count[OF this] show ?thesis by simp
qed

end
